theory Spec2Isabelle
  imports Complex_Main "HOL-Library.Multiset"
begin

section \<open>Python values and exceptions\<close>

text \<open>
  The tutorial's search programs (\<^verbatim>\<open>search-tutorial/python\<close>) are modelled as total
  functions. Every exception the Python can raise is a value: a function that can raise
  returns \<open>py_error + 'a\<close>, with \<open>Inl\<close> for the exception.

  \<open>Wrapped prefix e\<close> is the generic \<^verbatim>\<open>Exception(f"<prefix>: {e}")\<close> that the
  clients raise from their \<^verbatim>\<open>except requests.exceptions.RequestException as e\<close>
  handlers; \<open>e\<close> is the exception of the \<^verbatim>\<open>requests\<close> library that was caught.
\<close>

datatype request_exception =
  ConnectionFailed string
| HTTPError nat
| JSONDecodeError

datatype py_error =
  Wrapped string request_exception
| KeyError string
| IndexError
| TypeError
| ValueError
| OverflowError

text \<open>
  The values that reach \<^verbatim>\<open>normalize_limit\<close>: a command-line or query-string argument
  (a string) or the \<^verbatim>\<open>limit\<close> member of a decoded JSON body (any JSON value).
  A float is a finite number or one of the three special values that Python's JSON decoder
  also produces.
\<close>

datatype pyfloat = Finite real | PosInf | NegInf | NaN

datatype pyval =
  PNone
| PBool bool
| PInt int
| PFloat pyfloat
| PStr string
| PList
| PDict

subsection \<open>The builtin \<^verbatim>\<open>int(value)\<close>\<close>

definition is_py_space :: "char \<Rightarrow> bool" where
  "is_py_space c =
     (let n = (of_char c :: nat) in (9 \<le> n \<and> n \<le> 13) \<or> (28 \<le> n \<and> n \<le> 32))"

definition py_strip :: "string \<Rightarrow> string" where
  "py_strip s = rev (dropWhile is_py_space (rev (dropWhile is_py_space s)))"

definition digit_val :: "char \<Rightarrow> nat option" where
  "digit_val c =
     (let n = (of_char c :: nat) in if 48 \<le> n \<and> n \<le> 57 then Some (n - 48) else None)"

text \<open>
  Decimal digits, where a single underscore may stand between two digits
  (\<^verbatim>\<open>"1_000"\<close>), read after a first digit of value \<open>acc\<close>.
\<close>

fun py_digits :: "nat \<Rightarrow> string \<Rightarrow> nat option" where
  "py_digits acc [] = Some acc"
| "py_digits acc [c] =
     (case digit_val c of None \<Rightarrow> None | Some v \<Rightarrow> Some (10 * acc + v))"
| "py_digits acc (c # d # ds) =
     (if c = CHR ''_'' then
        (case digit_val d of None \<Rightarrow> None | Some v \<Rightarrow> py_digits (10 * acc + v) ds)
      else
        (case digit_val c of None \<Rightarrow> None | Some v \<Rightarrow> py_digits (10 * acc + v) (d # ds)))"

definition py_number :: "string \<Rightarrow> nat option" where
  "py_number s =
     (case s of
        [] \<Rightarrow> None
      | c # cs \<Rightarrow> (case digit_val c of None \<Rightarrow> None | Some v \<Rightarrow> py_digits v cs))"

text \<open>
  CPython refuses a decimal string of more than 4300 digits with \<^verbatim>\<open>ValueError\<close>
  (the default of \<^verbatim>\<open>sys.int_max_str_digits\<close>). Strings are ASCII text here: the
  white space that is stripped and the digits are the ASCII ones.
\<close>

definition int_max_str_digits :: nat where
  "int_max_str_digits = 4300"

definition py_int_str :: "string \<Rightarrow> py_error + int" where
  "py_int_str s =
     (let t = py_strip s;
          signed = (case t of [] \<Rightarrow> None
                    | c # cs \<Rightarrow>
                        if c = CHR ''-'' then map_option (\<lambda>n. - int n) (py_number cs)
                        else if c = CHR ''+'' then map_option int (py_number cs)
                        else map_option int (py_number t))
      in if int_max_str_digits < length (filter (\<lambda>c. digit_val c \<noteq> None) t)
         then Inl ValueError
         else (case signed of None \<Rightarrow> Inl ValueError | Some n \<Rightarrow> Inr n))"

text \<open>
  \<^verbatim>\<open>int\<close> of a float truncates towards zero; of an infinity it raises
  \<^verbatim>\<open>OverflowError\<close>, of a NaN \<^verbatim>\<open>ValueError\<close>; of \<^verbatim>\<open>None\<close>, a list or a
  dict \<^verbatim>\<open>TypeError\<close>.
\<close>

definition py_trunc :: "real \<Rightarrow> int" where
  "py_trunc x = (if x < 0 then \<lceil>x\<rceil> else \<lfloor>x\<rfloor>)"

fun py_int :: "pyval \<Rightarrow> py_error + int" where
  "py_int PNone = Inl TypeError"
| "py_int (PBool b) = Inr (if b then 1 else 0)"
| "py_int (PInt n) = Inr n"
| "py_int (PFloat (Finite x)) = Inr (py_trunc x)"
| "py_int (PFloat PosInf) = Inl OverflowError"
| "py_int (PFloat NegInf) = Inl OverflowError"
| "py_int (PFloat NaN) = Inl ValueError"
| "py_int (PStr s) = py_int_str s"
| "py_int PList = Inl TypeError"
| "py_int PDict = Inl TypeError"

section \<open>\<^verbatim>\<open>utils.py\<close>\<close>

text \<open>
  \<^verbatim>\<open>
  def normalize_limit(value, fallback=10, minimum=1, maximum=100):
      try:
          parsed = int(value)
      except (TypeError, ValueError):
          return fallback
      return max(minimum, min(parsed, maximum))
  \<close>
  Only \<^verbatim>\<open>TypeError\<close> and \<^verbatim>\<open>ValueError\<close> are caught; any other exception of
  \<^verbatim>\<open>int\<close> leaves the function.
\<close>

definition normalize_limit :: "pyval \<Rightarrow> int \<Rightarrow> int \<Rightarrow> int \<Rightarrow> py_error + int" where
  "normalize_limit v fallback minimum maximum =
     (case py_int v of
        Inl TypeError \<Rightarrow> Inr fallback
      | Inl ValueError \<Rightarrow> Inr fallback
      | Inl e \<Rightarrow> Inl e
      | Inr parsed \<Rightarrow> Inr (max minimum (min parsed maximum)))"

text \<open>The call \<^verbatim>\<open>normalize_limit(value, fallback)\<close> with the default bounds.\<close>

definition normalize_limit_default :: "pyval \<Rightarrow> int \<Rightarrow> py_error + int" where
  "normalize_limit_default v fallback = normalize_limit v fallback 1 100"

section \<open>Data of the search programs\<close>

text \<open>
  The JSON documents of the three endpoints are modelled at their documented schema.
  A member that the code reads with \<^verbatim>\<open>.get(key, default)\<close> or tests with
  \<^verbatim>\<open>in\<close> is an \<open>option\<close>: \<open>None\<close> is the absent key. Members the code never
  reads are left out.
\<close>

text \<open>
  The token endpoint's body \<^verbatim>\<open>{access_token, token_type, expires_in}\<close>, and the
  dictionary \<^verbatim>\<open>TokenManager.access_token_info\<close>, which is such a body with the member
  \<^verbatim>\<open>expires_at\<close> added. The empty dictionary has no member.
\<close>

record token_info =
  access_token :: "string option"
  expires_in :: "int option"
  expires_at :: "int option"

definition empty_token_info :: token_info where
  "empty_token_info = \<lparr>access_token = None, expires_in = None, expires_at = None\<rparr>"

definition dict_empty :: "token_info \<Rightarrow> bool" where
  "dict_empty d = (access_token d = None \<and> expires_in d = None \<and> expires_at d = None)"

text \<open>
  The search endpoint's body
  \<^verbatim>\<open>{data: [{properties: {item_title, type, snippet}, metadata: {certainty}}]}\<close>.
\<close>

record result_properties =
  item_title :: "string option"
  item_type :: "string option"
  snippet :: "string option"

record result_metadata =
  certainty :: "real option"

record search_result =
  properties :: "result_properties option"
  metadata :: "result_metadata option"

record search_results =
  data :: "search_result list option"

definition no_properties :: result_properties where
  "no_properties = \<lparr>item_title = None, item_type = None, snippet = None\<rparr>"

definition no_metadata :: result_metadata where
  "no_metadata = \<lparr>certainty = None\<rparr>"

text \<open>The dictionaries that \<^verbatim>\<open>extract_snippets\<close> builds, in the order of their keys.\<close>

record snippet_dict =
  snippet_text :: string
  snippet_title :: string
  snippet_type :: string
  snippet_relevance :: real

text \<open>
  The completions endpoint's body \<^verbatim>\<open>{choices: [{message: {content}}]}\<close> and the
  request that is sent to it.
\<close>

record completion_message =
  message_content :: "string option"

record completion_choice =
  message :: "completion_message option"

record completion_result =
  choices :: "completion_choice list option"

record chat_message =
  role :: string
  content :: string

record completions_request =
  completions_bearer :: string
  messages :: "chat_message list"
  auto_routing :: bool
  max_tokens :: int

record search_request =
  search_bearer :: string
  search_query :: string
  search_collection :: string
  search_tenant :: string
  search_limit :: int
  search_certainty :: real

record token_request =
  grant_type :: string
  scope :: string
  basic_auth :: "string \<times> string"

text \<open>
  What \<^verbatim>\<open>requests.post\<close> gives: it raises a \<^verbatim>\<open>RequestException\<close> (no connection,
  timeout), or returns a response with a status, the text of its body and, when the text
  is a JSON document, the decoded document.
\<close>

datatype 'b http_result =
  RequestFailed string
| Response nat string "'b option"

text \<open>The values of \<^verbatim>\<open>config.py\<close>, read from the environment at start-up.\<close>

record config =
  CLIENT_ID :: string
  CLIENT_SECRET :: string
  TENANT :: string
  RAG_MAX_TOKENS :: int
  RAG_CONTEXT_MAX_SNIPPETS :: int
  RAG_CONTEXT_MAX_CHARS_PER_SNIPPET :: int

text \<open>A line written by \<^verbatim>\<open>print\<close>: a string, or \<^verbatim>\<open>f"<prefix>: {e}"\<close> for an exception.\<close>

datatype printed = Line string | ErrorLine string py_error

text \<open>
  The state the programs act on. The token manager's cache is the only state of their
  own; the rest is the outside world: the clock (the successive values of
  \<^verbatim>\<open>time.time()\<close>), what each endpoint answers to its \<open>n\<close>-th request, the requests
  sent so far, and what was printed.
\<close>

record world =
  access_token_info :: token_info
  clock :: "nat \<Rightarrow> real"
  clock_reads :: nat
  token_endpoint :: "nat \<Rightarrow> token_info http_result"
  token_log :: "token_request list"
  search_endpoint :: "nat \<Rightarrow> search_results http_result"
  search_log :: "search_request list"
  completions_endpoint :: "nat \<Rightarrow> completion_result http_result"
  completions_log :: "completions_request list"
  stdout :: "printed list"
  stderr :: "printed list"

definition time_time :: "world \<Rightarrow> real \<times> world" where
  "time_time w = (clock w (clock_reads w), w\<lparr>clock_reads := Suc (clock_reads w)\<rparr>)"

definition py_print :: "printed \<Rightarrow> world \<Rightarrow> world" where
  "py_print l w = w\<lparr>stdout := stdout w @ [l]\<rparr>"

definition print_stderr :: "printed \<Rightarrow> world \<Rightarrow> world" where
  "print_stderr l w = w\<lparr>stderr := stderr w @ [l]\<rparr>"

text \<open>\<^verbatim>\<open>response.raise_for_status()\<close> raises for the statuses 400 to 599.\<close>

definition is_error_status :: "nat \<Rightarrow> bool" where
  "is_error_status status = (400 \<le> status \<and> status < 600)"

section \<open>\<^verbatim>\<open>auth.py\<close>: the token manager\<close>

text \<open>
  The request of \<^verbatim>\<open>get_access_token\<close>: the form
  \<^verbatim>\<open>grant_type=client_credentials&scope=api/access\<close> with the client's id and secret as
  basic authentication.
\<close>

definition client_credentials_grant :: "config \<Rightarrow> token_request" where
  "client_credentials_grant cfg =
     \<lparr>grant_type = ''client_credentials'', scope = ''api/access'',
      basic_auth = (CLIENT_ID cfg, CLIENT_SECRET cfg)\<rparr>"

definition post_token :: "config \<Rightarrow> world \<Rightarrow> token_info http_result \<times> world" where
  "post_token cfg w =
     (token_endpoint w (length (token_log w)),
      w\<lparr>token_log := token_log w @ [client_credentials_grant cfg]\<rparr>)"

text \<open>
  \<^verbatim>\<open>
  def get_access_token(self):
      try:
          response = requests.post(self.token_url, ..., timeout=30)
          response.raise_for_status()
          token_data = response.json()
          token_data['expires_at'] = int(time.time()) + token_data['expires_in']
          self.access_token_info = token_data
          return token_data
      except requests.exceptions.RequestException as e:
          raise Exception(f"Failed to obtain access token: {e}")
  \<close>
  The handler catches what \<^verbatim>\<open>requests\<close> raises (also for a body that is no JSON);
  the \<^verbatim>\<open>KeyError\<close> of a body without \<^verbatim>\<open>expires_in\<close> passes it. The clock is read
  before the member is looked up.
\<close>

definition get_access_token :: "config \<Rightarrow> world \<Rightarrow> (py_error + token_info) \<times> world" where
  "get_access_token cfg w =
     (let (r, w1) = post_token cfg w in
      case r of
        RequestFailed m \<Rightarrow>
          (Inl (Wrapped ''Failed to obtain access token'' (ConnectionFailed m)), w1)
      | Response status body_text body \<Rightarrow>
          if is_error_status status then
            (Inl (Wrapped ''Failed to obtain access token'' (HTTPError status)), w1)
          else
            (case body of
               None \<Rightarrow> (Inl (Wrapped ''Failed to obtain access token'' JSONDecodeError), w1)
             | Some token_data \<Rightarrow>
                 (let (t, w2) = time_time w1 in
                  case expires_in token_data of
                    None \<Rightarrow> (Inl (KeyError ''expires_in''), w2)
                  | Some ei \<Rightarrow>
                      (let token_data' = token_data\<lparr>expires_at := Some (py_trunc t + ei)\<rparr>
                       in (Inr token_data', w2\<lparr>access_token_info := token_data'\<rparr>)))))"

text \<open>
  \<^verbatim>\<open>
  def is_token_expired(self):
      if not self.access_token_info or 'expires_at' not in self.access_token_info:
          return True
      return time.time() > (self.access_token_info['expires_at'] - 60)
  \<close>
\<close>

definition is_token_expired :: "world \<Rightarrow> bool \<times> world" where
  "is_token_expired w =
     (if dict_empty (access_token_info w) then (True, w)
      else
        (case expires_at (access_token_info w) of
           None \<Rightarrow> (True, w)
         | Some T \<Rightarrow> (let (t, w1) = time_time w in (t > real_of_int T - 60, w1))))"

definition cached_access_token :: "world \<Rightarrow> py_error + string" where
  "cached_access_token w =
     (case access_token (access_token_info w) of
        None \<Rightarrow> Inl (KeyError ''access_token'')
      | Some tok \<Rightarrow> Inr tok)"

text \<open>
  \<^verbatim>\<open>
  def ensure_valid_token(self):
      if self.is_token_expired():
          self.get_access_token()
      return self.access_token_info['access_token']
  \<close>
\<close>

definition ensure_valid_token :: "config \<Rightarrow> world \<Rightarrow> (py_error + string) \<times> world" where
  "ensure_valid_token cfg w =
     (let (expired, w1) = is_token_expired w in
      if expired then
        (case get_access_token cfg w1 of
           (Inl e, w2) \<Rightarrow> (Inl e, w2)
         | (Inr token_data, w2) \<Rightarrow> (cached_access_token w2, w2))
      else (cached_access_token w1, w1))"

section \<open>Builtins used by \<^verbatim>\<open>search_advanced.py\<close>\<close>

text \<open>\<^verbatim>\<open>str(n)\<close> for a natural number: its decimal digits.\<close>

definition digit_char :: "nat \<Rightarrow> char" where
  "digit_char d = char_of (48 + d)"

fun str_nat :: "nat \<Rightarrow> string" where
  "str_nat n = (if n < 10 then [digit_char n] else str_nat (n div 10) @ [digit_char (n mod 10)])"

text \<open>
  The slice \<^verbatim>\<open>xs[:n]\<close>: the first \<open>n\<close> elements, and for a negative \<open>n\<close> all but
  the last \<open>-n\<close>.
\<close>

definition py_slice_to :: "int \<Rightarrow> 'a list \<Rightarrow> 'a list" where
  "py_slice_to n xs =
     (if n < 0 then take (nat (int (length xs) + n)) xs else take (nat n) xs)"

text \<open>\<^verbatim>\<open>sep.join(parts)\<close>.\<close>

fun str_join :: "string \<Rightarrow> string list \<Rightarrow> string" where
  "str_join sep [] = []"
| "str_join sep [p] = p"
| "str_join sep (p # q # ps) = p @ sep @ str_join sep (q # ps)"

text \<open>
  \<^verbatim>\<open>sorted(xs, key=key, reverse=True)\<close>: Python's sort is stable, also when reversed, so
  of two elements with equal keys the one that stood first stays first.
\<close>

fun insert_desc :: "('a \<Rightarrow> 'k::linorder) \<Rightarrow> 'a \<Rightarrow> 'a list \<Rightarrow> 'a list" where
  "insert_desc key x [] = [x]"
| "insert_desc key x (y # ys) =
     (if key y \<le> key x then x # y # ys else y # insert_desc key x ys)"

fun sorted_reverse :: "('a \<Rightarrow> 'k::linorder) \<Rightarrow> 'a list \<Rightarrow> 'a list" where
  "sorted_reverse key [] = []"
| "sorted_reverse key (x # xs) = insert_desc key x (sorted_reverse key xs)"

section \<open>\<^verbatim>\<open>search_advanced.py\<close>\<close>

definition NL :: char where
  "NL = CHR 0x0A"

definition has_data :: "search_results \<Rightarrow> bool" where
  "has_data results = (case data results of None \<Rightarrow> False | Some xs \<Rightarrow> xs \<noteq> [])"

definition get_data :: "search_results \<Rightarrow> search_result list" where
  "get_data results = (case data results of None \<Rightarrow> [] | Some xs \<Rightarrow> xs)"

definition get_properties :: "search_result \<Rightarrow> result_properties" where
  "get_properties result = (case properties result of None \<Rightarrow> no_properties | Some p \<Rightarrow> p)"

text \<open>\<^verbatim>\<open>x.get('metadata', {}).get('certainty', 0)\<close>\<close>

definition get_certainty :: "search_result \<Rightarrow> real" where
  "get_certainty x =
     (case certainty (case metadata x of None \<Rightarrow> no_metadata | Some m \<Rightarrow> m) of
        None \<Rightarrow> 0
      | Some c \<Rightarrow> c)"

definition post_search :: "search_request \<Rightarrow> world \<Rightarrow> search_results http_result \<times> world" where
  "post_search req w =
     (search_endpoint w (length (search_log w)), w\<lparr>search_log := search_log w @ [req]\<rparr>)"

text \<open>
  \<^verbatim>\<open>
  def search(self, query, limit=10, sort_by="relevance"):
      token = self.token_manager.ensure_valid_token()
      ...
      try:
          response = requests.post(SEARCH_URL, headers=headers, json=payload, timeout=60)
          response.raise_for_status()
          results = response.json()
          if sort_by == "certainty" and results.get('data'):
              results['data'] = sorted(results['data'],
                  key=lambda x: x.get('metadata', {}).get('certainty', 0), reverse=True)
          return results
      except requests.exceptions.RequestException as e:
          if hasattr(e, 'response') and e.response is not None:
              print(f"Search failed with status {e.response.status_code}: {e.response.text}")
          raise Exception(f"Search request failed: {e}")
  \<close>
  The token is fetched before the \<^verbatim>\<open>try\<close>: a failure there is not wrapped again.
\<close>

definition search ::
  "config \<Rightarrow> string \<Rightarrow> int \<Rightarrow> string \<Rightarrow> world \<Rightarrow> (py_error + search_results) \<times> world" where
  "search cfg query limit sort_by w =
     (case ensure_valid_token cfg w of
        (Inl e, w1) \<Rightarrow> (Inl e, w1)
      | (Inr token, w1) \<Rightarrow>
          (let (r, w2) = post_search
                 \<lparr>search_bearer = token, search_query = query,
                  search_collection = ''GlooProd'', search_tenant = TENANT cfg,
                  search_limit = limit, search_certainty = 0.5\<rparr> w1
           in case r of
                RequestFailed m \<Rightarrow>
                  (Inl (Wrapped ''Search request failed'' (ConnectionFailed m)), w2)
              | Response status body_text body \<Rightarrow>
                  if is_error_status status then
                    (Inl (Wrapped ''Search request failed'' (HTTPError status)),
                     py_print (Line (''Search failed with status '' @ str_nat status @ '': ''
                                     @ body_text)) w2)
                  else
                    (case body of
                       None \<Rightarrow> (Inl (Wrapped ''Search request failed'' JSONDecodeError), w2)
                     | Some results \<Rightarrow>
                         (Inr (if sort_by = ''certainty'' \<and> has_data results
                               then results\<lparr>data :=
                                      Some (sorted_reverse get_certainty (get_data results))\<rparr>
                               else results), w2))))"

text \<open>
  \<^verbatim>\<open>
  def extract_snippets(results, max_snippets=5, max_chars_per_snippet=500):
      if not results.get('data'):
          return []
      snippets = []
      for result in results['data'][:max_snippets]:
          props = result.get('properties', {})
          snippet_text = props.get('snippet', '')[:max_chars_per_snippet]
          snippets.append({
              'text': snippet_text,
              'title': props.get('item_title', 'N/A'),
              'type': props.get('type', 'N/A'),
              'relevance': result.get('metadata', {}).get('certainty', 0)
          })
      return snippets
  \<close>
\<close>

definition make_snippet :: "int \<Rightarrow> search_result \<Rightarrow> snippet_dict" where
  "make_snippet max_chars_per_snippet result =
     (let props = get_properties result;
          snippet_text' = py_slice_to max_chars_per_snippet
                            (case snippet props of None \<Rightarrow> [] | Some t \<Rightarrow> t)
      in \<lparr>snippet_text = snippet_text',
          snippet_title = (case item_title props of None \<Rightarrow> ''N/A'' | Some t \<Rightarrow> t),
          snippet_type = (case item_type props of None \<Rightarrow> ''N/A'' | Some t \<Rightarrow> t),
          snippet_relevance = get_certainty result\<rparr>)"

fun extract_loop :: "int \<Rightarrow> search_result list \<Rightarrow> snippet_dict list \<Rightarrow> snippet_dict list" where
  "extract_loop max_chars_per_snippet [] snippets = snippets"
| "extract_loop max_chars_per_snippet (result # rest) snippets =
     extract_loop max_chars_per_snippet rest
       (snippets @ [make_snippet max_chars_per_snippet result])"

definition extract_snippets :: "search_results \<Rightarrow> int \<Rightarrow> int \<Rightarrow> snippet_dict list" where
  "extract_snippets results max_snippets max_chars_per_snippet =
     (if \<not> has_data results then []
      else extract_loop max_chars_per_snippet
             (py_slice_to max_snippets (get_data results)) [])"

text \<open>
  \<^verbatim>\<open>
  def format_context_for_llm(snippets):
      context_parts = []
      for i, snippet in enumerate(snippets, 1):
          context_parts.append(
              f"[Source {i}: {snippet['title']} ({snippet['type']})]\n{snippet['text']}\n")
      return "\n---\n".join(context_parts)
  \<close>
\<close>

definition source_block :: "nat \<Rightarrow> snippet_dict \<Rightarrow> string" where
  "source_block i s =
     ''[Source '' @ str_nat i @ '': '' @ snippet_title s @ '' ('' @ snippet_type s @ '')]''
     @ [NL] @ snippet_text s @ [NL]"

fun context_parts_loop :: "nat \<Rightarrow> snippet_dict list \<Rightarrow> string list \<Rightarrow> string list" where
  "context_parts_loop i [] context_parts = context_parts"
| "context_parts_loop i (s # rest) context_parts =
     context_parts_loop (Suc i) rest (context_parts @ [source_block i s])"

definition separator :: string where
  "separator = [NL] @ ''---'' @ [NL]"

definition format_context_for_llm :: "snippet_dict list \<Rightarrow> string" where
  "format_context_for_llm snippets = str_join separator (context_parts_loop 1 snippets [])"

text \<open>
  \<^verbatim>\<open>
  def generate_with_context(self, query, context, system_prompt=None):
      token = self.token_manager.ensure_valid_token()
      ...
      if not system_prompt:
          system_prompt = ("You are a helpful assistant. Answer the user's question based on the "
              "provided context. If the context doesn't contain relevant information, "
              "say so honestly.")
      messages = [{"role": "system", "content": system_prompt},
                  {"role": "user", "content": f"Context:\n{context}\n\nQuestion: {query}"}]
      payload = {"messages": messages, "auto_routing": True, "max_tokens": RAG_MAX_TOKENS}
      try:
          response = requests.post(COMPLETIONS_URL, headers=headers, json=payload, timeout=60)
          response.raise_for_status()
          result = response.json()
          return result.get('choices', [{}])[0].get('message', {}).get('content', '')
      except requests.exceptions.RequestException as e:
          if hasattr(e, 'response') and e.response is not None:
              print(f"Completions API failed: {e.response.text}")
          raise Exception(f"Completions request failed: {e}")
  \<close>
  \<^verbatim>\<open>not system_prompt\<close> holds for \<^verbatim>\<open>None\<close> and for the empty string.
\<close>

definition default_system_prompt :: string where
  "default_system_prompt =
     ''You are a helpful assistant. Answer the user'' @ [CHR 0x27] @ ''s question based on the ''
     @ ''provided context. If the context doesn'' @ [CHR 0x27] @ ''t contain relevant information, ''
     @ ''say so honestly.''"

definition effective_system_prompt :: "string option \<Rightarrow> string" where
  "effective_system_prompt system_prompt =
     (case system_prompt of
        None \<Rightarrow> default_system_prompt
      | Some p \<Rightarrow> if p = [] then default_system_prompt else p)"

definition build_messages :: "string \<Rightarrow> string \<Rightarrow> string option \<Rightarrow> chat_message list" where
  "build_messages query context system_prompt =
     [\<lparr>role = ''system'', content = effective_system_prompt system_prompt\<rparr>,
      \<lparr>role = ''user'',
       content = ''Context:'' @ [NL] @ context @ [NL, NL] @ ''Question: '' @ query\<rparr>]"

definition post_completions ::
  "completions_request \<Rightarrow> world \<Rightarrow> completion_result http_result \<times> world" where
  "post_completions req w =
     (completions_endpoint w (length (completions_log w)),
      w\<lparr>completions_log := completions_log w @ [req]\<rparr>)"

definition first_choice_content :: "completion_result \<Rightarrow> py_error + string" where
  "first_choice_content result =
     (case (case choices result of None \<Rightarrow> [\<lparr>message = None\<rparr>] | Some cs \<Rightarrow> cs) of
        [] \<Rightarrow> Inl IndexError
      | c # cs \<Rightarrow>
          Inr (case message c of
                 None \<Rightarrow> []
               | Some m \<Rightarrow> (case message_content m of None \<Rightarrow> [] | Some t \<Rightarrow> t)))"

definition generate_with_context ::
  "config \<Rightarrow> string \<Rightarrow> string \<Rightarrow> string option \<Rightarrow> world \<Rightarrow> (py_error + string) \<times> world" where
  "generate_with_context cfg query context system_prompt w =
     (case ensure_valid_token cfg w of
        (Inl e, w1) \<Rightarrow> (Inl e, w1)
      | (Inr token, w1) \<Rightarrow>
          (let (r, w2) = post_completions
                 \<lparr>completions_bearer = token,
                  messages = build_messages query context system_prompt,
                  auto_routing = True, max_tokens = RAG_MAX_TOKENS cfg\<rparr> w1
           in case r of
                RequestFailed m \<Rightarrow>
                  (Inl (Wrapped ''Completions request failed'' (ConnectionFailed m)), w2)
              | Response status body_text body \<Rightarrow>
                  if is_error_status status then
                    (Inl (Wrapped ''Completions request failed'' (HTTPError status)),
                     py_print (Line (''Completions API failed: '' @ body_text)) w2)
                  else
                    (case body of
                       None \<Rightarrow>
                         (Inl (Wrapped ''Completions request failed'' JSONDecodeError), w2)
                     | Some result \<Rightarrow> (first_choice_content result, w2))))"

text \<open>
  \<^verbatim>\<open>AdvancedSearchApp.rag_search(query, limit=5)\<close>, the command-line run. Its whole body
  stands in a \<^verbatim>\<open>try\<close> whose handler prints \<^verbatim>\<open>f"RAG search failed: {e}"\<close> and calls
  \<^verbatim>\<open>sys.exit(1)\<close>.
\<close>

datatype outcome = Returned | SysExit int

definition source_line :: "snippet_dict \<Rightarrow> printed" where
  "source_line s = Line (''- '' @ snippet_title s @ '' ('' @ snippet_type s @ '')'')"

definition rag_search_failed :: "py_error \<Rightarrow> world \<Rightarrow> outcome \<times> world" where
  "rag_search_failed e w = (SysExit 1, py_print (ErrorLine ''RAG search failed'' e) w)"

text \<open>The two lines printed before the search.\<close>

definition rag_search_start :: "string \<Rightarrow> world \<Rightarrow> world" where
  "rag_search_start query w =
     (let w1 = py_print (Line (''RAG Search for: '' @ [CHR 0x27] @ query @ [CHR 0x27, NL])) w
      in py_print (Line ''Step 1: Searching for relevant content...'') w1)"

definition rag_search :: "config \<Rightarrow> string \<Rightarrow> int \<Rightarrow> world \<Rightarrow> outcome \<times> world" where
  "rag_search cfg query limit w =
     (let w2 = rag_search_start query w
      in case search cfg query limit ''relevance'' w2 of
           (Inl e, w3) \<Rightarrow> rag_search_failed e w3
         | (Inr results, w3) \<Rightarrow>
             if \<not> has_data results then (Returned, py_print (Line ''No results found.'') w3)
             else
               (let w4 = py_print (Line (''Found '' @ str_nat (length (get_data results))
                                         @ '' results'' @ [NL])) w3;
                    w5 = py_print (Line ''Step 2: Extracting snippets...'') w4;
                    snippet_limit = min limit (RAG_CONTEXT_MAX_SNIPPETS cfg);
                    snippets = extract_snippets results snippet_limit
                                 (RAG_CONTEXT_MAX_CHARS_PER_SNIPPET cfg);
                    context = format_context_for_llm snippets;
                    w6 = py_print (Line (''Extracted '' @ str_nat (length snippets)
                                         @ '' snippets'' @ [NL])) w5;
                    w7 = py_print (Line (''Step 3: Generating response with context...'' @ [NL])) w6
                in case generate_with_context cfg query context None w7 of
                     (Inl e, w8) \<Rightarrow> rag_search_failed e w8
                   | (Inr response, w8) \<Rightarrow>
                       (let w9 = py_print (Line ''=== Generated Response ==='') w8;
                            w10 = py_print (Line response) w9;
                            w11 = py_print (Line ([NL] @ ''=== Sources Used ==='')) w10
                        in (Returned, w11\<lparr>stdout := stdout w11 @ map source_line snippets\<rparr>))))"

section \<open>\<^verbatim>\<open>server.py\<close>: the route \<^verbatim>\<open>/api/search/rag\<close>\<close>

text \<open>
  The decoded JSON body of the request, and what the route gives back: a JSON error with
  its status, the answer with its sources (status 200), or an exception that leaves the
  handler (\<^verbatim>\<open>normalize_limit\<close> is called outside the \<^verbatim>\<open>try\<close>).
\<close>

record rag_body =
  body_query :: "string option"
  body_limit :: "pyval option"
  body_systemPrompt :: "string option"

datatype api_reply =
  JsonError nat string
| RagAnswer string "(string \<times> string) list"
| Unhandled py_error

text \<open>
  \<^verbatim>\<open>
  def api_rag():
      body = request.get_json()
      if not body or not body.get("query"):
          return jsonify({"error": "Field 'query' is required"}), 400
      query = body["query"]
      limit = normalize_limit(body.get("limit", 5), 5)
      system_prompt = body.get("systemPrompt")
      try:
          results = advanced_search_client.search(query, limit)
          if not results.get("data"):
              return jsonify({"response": "No relevant content found.", "sources": []})
          snippet_limit = min(limit, RAG_CONTEXT_MAX_SNIPPETS)
          snippets = rag_helper.extract_snippets(results, max_snippets=snippet_limit,
              max_chars_per_snippet=RAG_CONTEXT_MAX_CHARS_PER_SNIPPET)
          context = rag_helper.format_context_for_llm(snippets)
          generated_response = rag_helper.generate_with_context(query, context, system_prompt)
          return jsonify({"response": generated_response,
              "sources": [{"title": s["title"], "type": s["type"]} for s in snippets]})
      except Exception as e:
          print(f"RAG error: {e}", file=sys.stderr)
          return jsonify({"error": "RAG request failed"}), 500
  \<close>
  The body of the \<^verbatim>\<open>try\<close> is \<open>rag_steps\<close>.
\<close>

definition rag_steps ::
  "config \<Rightarrow> string \<Rightarrow> int \<Rightarrow> string option \<Rightarrow> world \<Rightarrow> (py_error + api_reply) \<times> world" where
  "rag_steps cfg query limit system_prompt w =
     (case search cfg query limit ''relevance'' w of
        (Inl e, w1) \<Rightarrow> (Inl e, w1)
      | (Inr results, w1) \<Rightarrow>
          if \<not> has_data results then (Inr (RagAnswer ''No relevant content found.'' []), w1)
          else
            (let snippet_limit = min limit (RAG_CONTEXT_MAX_SNIPPETS cfg);
                 snippets = extract_snippets results snippet_limit
                              (RAG_CONTEXT_MAX_CHARS_PER_SNIPPET cfg);
                 context = format_context_for_llm snippets
             in case generate_with_context cfg query context system_prompt w1 of
                  (Inl e, w2) \<Rightarrow> (Inl e, w2)
                | (Inr generated_response, w2) \<Rightarrow>
                    (Inr (RagAnswer generated_response
                            (map (\<lambda>s. (snippet_title s, snippet_type s)) snippets)), w2)))"

definition api_rag :: "config \<Rightarrow> rag_body option \<Rightarrow> world \<Rightarrow> api_reply \<times> world" where
  "api_rag cfg body w =
     (case body of
        None \<Rightarrow> (JsonError 400 (''Field '' @ [CHR 0x27] @ ''query'' @ [CHR 0x27] @ '' is required''), w)
      | Some b \<Rightarrow>
          (case body_query b of
             None \<Rightarrow>
               (JsonError 400 (''Field '' @ [CHR 0x27] @ ''query'' @ [CHR 0x27] @ '' is required''), w)
           | Some query \<Rightarrow>
               if query = [] then
                 (JsonError 400
                    (''Field '' @ [CHR 0x27] @ ''query'' @ [CHR 0x27] @ '' is required''), w)
               else
                 (case normalize_limit_default
                         (case body_limit b of None \<Rightarrow> PInt 5 | Some v \<Rightarrow> v) 5 of
                    Inl e \<Rightarrow> (Unhandled e, w)
                  | Inr limit \<Rightarrow>
                      (case rag_steps cfg query limit (body_systemPrompt b) w of
                         (Inr reply, w1) \<Rightarrow> (reply, w1)
                       | (Inl e, w1) \<Rightarrow>
                           (JsonError 500 ''RAG request failed'',
                            print_stderr (ErrorLine ''RAG error'' e) w1)))))"

section \<open>Example inputs\<close>

text \<open>
  The configuration with the defaults of \<^verbatim>\<open>config.py\<close>, and a world in which nothing
  has happened yet: no token is cached, the clock stands at 1000 seconds, and every
  endpoint answers with status 200 (a token that lives an hour, no search result, one
  completion).
\<close>

definition example_config :: config where
  "example_config =
     \<lparr>CLIENT_ID = ''id'', CLIENT_SECRET = ''secret'', TENANT = ''tenant'',
      RAG_MAX_TOKENS = 3000, RAG_CONTEXT_MAX_SNIPPETS = 5,
      RAG_CONTEXT_MAX_CHARS_PER_SNIPPET = 350\<rparr>"

definition example_token :: "string \<Rightarrow> int \<Rightarrow> token_info" where
  "example_token tok ei = \<lparr>access_token = Some tok, expires_in = Some ei, expires_at = None\<rparr>"

definition example_completion :: completion_result where
  "example_completion =
     \<lparr>choices = Some [\<lparr>message = Some \<lparr>message_content = Some ''An answer.''\<rparr>\<rparr>]\<rparr>"

definition example_world :: world where
  "example_world =
     \<lparr>access_token_info = empty_token_info,
      clock = (\<lambda>n. 1000),
      clock_reads = 0,
      token_endpoint = (\<lambda>n. Response 200 [] (Some (example_token ''tok'' 3600))),
      token_log = [],
      search_endpoint = (\<lambda>n. Response 200 [] (Some \<lparr>data = Some []\<rparr>)),
      search_log = [],
      completions_endpoint = (\<lambda>n. Response 200 [] (Some example_completion)),
      completions_log = [],
      stdout = [],
      stderr = []\<rparr>"

definition example_result :: "string \<Rightarrow> real \<Rightarrow> string \<Rightarrow> search_result" where
  "example_result t c s =
     \<lparr>properties = Some \<lparr>item_title = Some t, item_type = Some ''Article'', snippet = Some s\<rparr>,
      metadata = Some \<lparr>certainty = Some c\<rparr>\<rparr>"

definition three_results :: "search_result list" where
  "three_results =
     [example_result ''A'' 0.5 ''abc'', example_result ''B'' 0.9 ''def'',
      example_result ''C'' 0.7 ''ghi'']"

definition example_body :: rag_body where
  "example_body =
     \<lparr>body_query = Some ''What is X?'', body_limit = None, body_systemPrompt = None\<rparr>"

text \<open>Eight results whose snippets are 500 characters long.\<close>

definition long_snippet :: string where
  "long_snippet = replicate 500 CHR ''x''"

definition eight_results :: "search_result list" where
  "eight_results =
     [example_result ''R1'' 0.9 long_snippet, example_result ''R2'' 0.9 long_snippet,
      example_result ''R3'' 0.8 long_snippet, example_result ''R4'' 0.8 long_snippet,
      example_result ''R5'' 0.7 long_snippet, example_result ''R6'' 0.7 long_snippet,
      example_result ''R7'' 0.6 long_snippet, example_result ''R8'' 0.6 long_snippet]"

text \<open>A token endpoint that answers with the given body, status 200.\<close>

definition token_answers :: "token_info \<Rightarrow> world \<Rightarrow> world" where
  "token_answers body w = w\<lparr>token_endpoint := (\<lambda>n. Response 200 [] (Some body))\<rparr>"

text \<open>A search endpoint that answers with the given results, status 200.\<close>

definition search_answers :: "search_result list \<Rightarrow> world \<Rightarrow> world" where
  "search_answers rs w = w\<lparr>search_endpoint := (\<lambda>n. Response 200 [] (Some \<lparr>data = Some rs\<rparr>))\<rparr>"

text \<open>A search endpoint and a completions endpoint that are out of service.\<close>

definition search_down :: "world \<Rightarrow> world" where
  "search_down w = w\<lparr>search_endpoint := (\<lambda>n. Response 503 ''down'' None)\<rparr>"

definition completions_down :: "world \<Rightarrow> world" where
  "completions_down w = w\<lparr>completions_endpoint := (\<lambda>n. Response 503 ''down'' None)\<rparr>"

text \<open>Two snippets, and a request body whose limit is the JSON number \<^verbatim>\<open>Infinity\<close>.\<close>

definition first_snippet :: snippet_dict where
  "first_snippet =
     \<lparr>snippet_text = ''foo'', snippet_title = ''T'', snippet_type = ''Article'',
      snippet_relevance = 0.9\<rparr>"

definition second_snippet :: snippet_dict where
  "second_snippet =
     \<lparr>snippet_text = ''bar'', snippet_title = ''U'', snippet_type = ''Video'',
      snippet_relevance = 0.5\<rparr>"


section \<open>Properties of \<^verbatim>\<open>normalize_limit\<close>\<close>

lemmas py_int_str_defs = py_int_str_def py_strip_def is_py_space_def py_number_def
  digit_val_def int_max_str_digits_def

lemma py_int_errors:
  "py_int v = Inl e \<Longrightarrow> e = TypeError \<or> e = ValueError \<or> e = OverflowError"
  by (cases v rule: py_int.cases)
     (auto simp: py_int_str_def Let_def split: if_splits option.splits)

text \<open>
  C2, as the code has it. A value that \<^verbatim>\<open>int\<close> converts is clamped into \<open>[1, 100]\<close>:
  500 gives 100 and 0 gives 1. Only a value that \<^verbatim>\<open>int\<close> refuses with
  \<^verbatim>\<open>TypeError\<close> or \<^verbatim>\<open>ValueError\<close> gives the caller's default, which is returned as
  it is, inside the range or not. An infinite float leaves the function with
  \<^verbatim>\<open>OverflowError\<close>. There is no other outcome.
\<close>

theorem normalize_limit_clamps_or_falls_back:
  "(py_int v = Inr n \<longrightarrow>
      normalize_limit_default v fb = Inr (max 1 (min n 100)) \<and>
      1 \<le> max 1 (min n 100) \<and> max 1 (min n 100) \<le> 100)
   \<and> (py_int v = Inl TypeError \<or> py_int v = Inl ValueError \<longrightarrow>
      normalize_limit_default v fb = Inr fb)
   \<and> (py_int v = Inl OverflowError \<longrightarrow> normalize_limit_default v fb = Inl OverflowError)
   \<and> ((\<exists>n. py_int v = Inr n) \<or> py_int v = Inl TypeError \<or> py_int v = Inl ValueError
        \<or> py_int v = Inl OverflowError)
   \<and> normalize_limit_default (PInt 500) 10 = Inr 100
   \<and> normalize_limit_default (PInt 0) 10 = Inr 1"
proof -
  have total: "(\<exists>n. py_int v = Inr n) \<or> py_int v = Inl TypeError \<or> py_int v = Inl ValueError
        \<or> py_int v = Inl OverflowError"
  proof (cases "py_int v")
    case (Inl e)
    with py_int_errors[OF Inl] show ?thesis by auto
  next
    case (Inr n)
    then show ?thesis by simp
  qed
  show ?thesis
    using total by (auto simp: normalize_limit_default_def normalize_limit_def)
qed

theorem normalize_limit_clamps_or_falls_back_witness:
  "normalize_limit_default (PStr '' 250 '') 10 = Inr 100
   \<and> normalize_limit_default (PStr ''-3'') 10 = Inr 1
   \<and> normalize_limit_default PNone 7 = Inr 7
   \<and> normalize_limit_default (PStr ''ten'') 500 = Inr 500
   \<and> normalize_limit_default (PFloat PosInf) 10 = Inl OverflowError"
proof -
  have a: "py_int (PStr '' 250 '') = Inr 250" by (simp add: py_int_str_defs)
  have b: "py_int (PStr ''-3'') = Inr (- 3)" by (simp add: py_int_str_defs)
  have c: "py_int PNone = Inl TypeError" by simp
  have d: "py_int (PStr ''ten'') = Inl ValueError" by (simp add: py_int_str_defs)
  have e: "py_int (PFloat PosInf) = Inl OverflowError" by simp
  show ?thesis
    using normalize_limit_clamps_or_falls_back[of "PStr '' 250 ''" 250 10]
      normalize_limit_clamps_or_falls_back[of "PStr ''-3''" "- 3" 10]
      normalize_limit_clamps_or_falls_back[of PNone 0 7]
      normalize_limit_clamps_or_falls_back[of "PStr ''ten''" 0 500]
      normalize_limit_clamps_or_falls_back[of "PFloat PosInf" 0 10]
      a b c d e
    by simp
qed

text \<open>
  C2 as stated fails: the input 0 with the default 10 gives 1, not the default, and a
  default outside \<open>[1, 100]\<close> comes back unclamped for an unparsable input.
\<close>

theorem normalize_limit_zero_not_default:
  "normalize_limit_default (PInt 0) 10 = Inr 1
   \<and> normalize_limit_default (PInt 0) 10 \<noteq> Inr 10
   \<and> normalize_limit_default (PStr ''ten'') 500 = Inr 500"
  by (simp add: normalize_limit_default_def normalize_limit_def py_int_str_defs)

section \<open>Properties of \<^verbatim>\<open>format_context_for_llm\<close>\<close>

lemma context_parts_loop_eq:
  "context_parts_loop i ss acc = acc @ map (\<lambda>k. source_block (i + k) (ss ! k)) [0..<length ss]"
proof (induction ss arbitrary: i acc)
  case Nil
  then show ?case by simp
next
  case (Cons s ss)
  have "map (\<lambda>k. source_block (i + k) ((s # ss) ! k)) [0..<length (s # ss)]
        = source_block i s # map (\<lambda>k. source_block (Suc i + k) (ss ! k)) [0..<length ss]"
    by (simp add: upt_conv_Cons map_Suc_upt[symmetric] del: upt_Suc)
  with Cons show ?case by simp
qed

lemma str_join_Cons: "str_join sep (p # ps) = p @ concat (map (\<lambda>q. sep @ q) ps)"
  by (induction ps arbitrary: p) simp_all

lemma map_index: "map (\<lambda>k. g (ps ! k)) [0..<length ps] = map g ps"
proof -
  have "map (\<lambda>k. g (ps ! k)) [0..<length ps] = map g (map (\<lambda>k. ps ! k) [0..<length ps])"
    by (simp add: comp_def)
  then show ?thesis by (simp only: map_nth)
qed

lemma str_join_concat:
  "str_join sep ps = concat (map (\<lambda>k. (if k = 0 then [] else sep) @ ps ! k) [0..<length ps])"
proof (cases ps)
  case Nil
  then show ?thesis by simp
next
  case (Cons p qs)
  have "map (\<lambda>k. (if k = 0 then [] else sep) @ (p # qs) ! k) [0..<length (p # qs)]
      = p # map (\<lambda>k. sep @ qs ! k) [0..<length qs]"
    by (simp add: upt_conv_Cons map_Suc_upt[symmetric] comp_def del: upt_Suc)
  also have "map (\<lambda>k. sep @ qs ! k) [0..<length qs] = map (\<lambda>q. sep @ q) qs"
    by (rule map_index)
  finally show ?thesis
    unfolding Cons by (simp only: str_join_Cons concat.simps)
qed

lemma of_char_digit_char: "d < 10 \<Longrightarrow> (of_char (digit_char d) :: nat) = 48 + d"
  by (simp add: digit_char_def)

lemma str_nat_small: "n < 10 \<Longrightarrow> str_nat n = [digit_char n]"
  by (subst str_nat.simps) simp

lemma str_nat_large:
  "\<not> n < 10 \<Longrightarrow> str_nat n = str_nat (n div 10) @ [digit_char (n mod 10)]"
  by (subst str_nat.simps) simp

lemma str_nat_nonempty: "str_nat n \<noteq> []"
  by (cases "n < 10") (simp_all add: str_nat_small str_nat_large del: str_nat.simps)

lemma str_nat_value: "foldl (\<lambda>a c. 10 * a + (of_char c - 48)) 0 (str_nat n) = n"
proof (induction n rule: str_nat.induct)
  case (1 n)
  show ?case
  proof (cases "n < 10")
    case True
    then show ?thesis
      by (simp add: str_nat_small of_char_digit_char del: str_nat.simps)
  next
    case False
    with 1 show ?thesis
      by (simp add: str_nat_large of_char_digit_char del: str_nat.simps)
  qed
qed

lemma str_nat_digits:
  "c \<in> set (str_nat n) \<Longrightarrow> (48::nat) \<le> of_char c \<and> of_char c \<le> (57::nat)"
proof (induction n rule: str_nat.induct)
  case (1 n)
  show ?case
  proof (cases "n < 10")
    case True
    with 1(2) show ?thesis
      by (simp add: str_nat_small of_char_digit_char del: str_nat.simps)
  next
    case False
    with 1(2) have "c = digit_char (n mod 10) \<or> c \<in> set (str_nat (n div 10))"
      by (simp add: str_nat_large del: str_nat.simps)
    then show ?thesis
    proof
      assume "c = digit_char (n mod 10)"
      then show ?thesis by (simp add: of_char_digit_char)
    next
      assume "c \<in> set (str_nat (n div 10))"
      with 1(1) False show ?thesis by simp
    qed
  qed
qed

lemma str_nat_no_leading_zero: "n \<noteq> 0 \<Longrightarrow> hd (str_nat n) \<noteq> CHR ''0''"
proof (induction n rule: str_nat.induct)
  case (1 n)
  show ?case
  proof (cases "n < 10")
    case True
    with 1(2) have "(of_char (digit_char n) :: nat) \<noteq> of_char CHR ''0''"
      by (simp add: of_char_digit_char)
    then have "digit_char n \<noteq> CHR ''0''" by auto
    with True show ?thesis by (simp add: str_nat_small del: str_nat.simps)
  next
    case False
    then have "n div 10 \<noteq> 0" by simp
    with 1(1) False have "hd (str_nat (n div 10)) \<noteq> CHR ''0''" by simp
    with False show ?thesis
      by (simp add: str_nat_large str_nat_nonempty del: str_nat.simps)
  qed
qed

lemma digit_char_values:
  "digit_char 0 = CHR ''0''" "digit_char (Suc 0) = CHR ''1''" "digit_char 2 = CHR ''2''"
  "digit_char 3 = CHR ''3''" "digit_char 4 = CHR ''4''" "digit_char 5 = CHR ''5''"
  "digit_char 6 = CHR ''6''" "digit_char 7 = CHR ''7''" "digit_char 8 = CHR ''8''"
  "digit_char 9 = CHR ''9''" "digit_char 1 = CHR ''1''"
  "digit_char (Suc (Suc 0)) = CHR ''2''"
  by code_simp+

text \<open>
  C5, as the code has it: the context is the concatenation, over the snippets in their
  order, of the blocks \<^verbatim>\<open>[Source k: title (type)]\<close>, newline, text, newline, where \<open>k\<close>
  counts from 1 and every block but the first is preceded by the separator
  \<^verbatim>\<open>"\n---\n"\<close>. The index is written in decimal: \<open>str_nat n\<close> is a non-empty string of
  digits without a leading zero (but for 0 itself) whose value is \<open>n\<close>. The function reads
  nothing but its argument, so equal lists give equal strings.
\<close>

theorem format_context_for_llm_blocks:
  "format_context_for_llm snippets
     = concat (map (\<lambda>k. (if k = 0 then [] else [CHR 0x0A] @ ''---'' @ [CHR 0x0A])
                        @ ''[Source '' @ str_nat (Suc k) @ '': '' @ snippet_title (snippets ! k)
                        @ '' ('' @ snippet_type (snippets ! k) @ '')]'' @ [CHR 0x0A]
                        @ snippet_text (snippets ! k) @ [CHR 0x0A])
                  [0..<length snippets])
   \<and> str_nat n \<noteq> []
   \<and> (\<forall>c \<in> set (str_nat n). (48::nat) \<le> of_char c \<and> of_char c \<le> (57::nat))
   \<and> (n \<noteq> 0 \<longrightarrow> hd (str_nat n) \<noteq> CHR ''0'')
   \<and> foldl (\<lambda>a c. 10 * a + (of_char c - 48)) 0 (str_nat n) = n"
proof -
  have "format_context_for_llm snippets
      = concat (map (\<lambda>k. (if k = 0 then [] else separator)
                        @ map (\<lambda>j. source_block (Suc j) (snippets ! j)) [0..<length snippets] ! k)
                  [0..<length snippets])"
    by (simp add: format_context_for_llm_def context_parts_loop_eq str_join_concat)
  also have "\<dots> = concat (map (\<lambda>k. (if k = 0 then [] else separator)
                        @ source_block (Suc k) (snippets ! k)) [0..<length snippets])"
    by (rule arg_cong[where f = concat], rule map_cong) simp_all
  finally have "format_context_for_llm snippets
      = concat (map (\<lambda>k. (if k = 0 then [] else separator)
                        @ source_block (Suc k) (snippets ! k)) [0..<length snippets])" .
  then have "format_context_for_llm snippets
     = concat (map (\<lambda>k. (if k = 0 then [] else [CHR 0x0A] @ ''---'' @ [CHR 0x0A])
                        @ ''[Source '' @ str_nat (Suc k) @ '': '' @ snippet_title (snippets ! k)
                        @ '' ('' @ snippet_type (snippets ! k) @ '')]'' @ [CHR 0x0A]
                        @ snippet_text (snippets ! k) @ [CHR 0x0A])
                  [0..<length snippets])"
    unfolding separator_def source_block_def NL_def by (simp del: str_nat.simps)
  then show ?thesis
    using str_nat_nonempty[of n] str_nat_digits[of _ n] str_nat_no_leading_zero[of n]
      str_nat_value[of n]
    by blast
qed

theorem format_context_for_llm_blocks_witness:
  "format_context_for_llm [first_snippet, second_snippet]
     = ''[Source 1: T (Article)]'' @ [CHR 0x0A] @ ''foo'' @ [CHR 0x0A]
       @ [CHR 0x0A] @ ''---'' @ [CHR 0x0A]
       @ ''[Source 2: U (Video)]'' @ [CHR 0x0A] @ ''bar'' @ [CHR 0x0A]
   \<and> hd (str_nat 12) \<noteq> CHR ''0''
   \<and> foldl (\<lambda>a c. 10 * a + (of_char c - 48)) 0 (str_nat 12) = (12::nat)"
  using format_context_for_llm_blocks[of "[first_snippet, second_snippet]" 12]
  by (simp add: first_snippet_def second_snippet_def digit_char_values)

text \<open>
  C5 as stated fails: the text of a snippet is followed by a newline, which the claim's
  words do not have. For one snippet the code's string is the header line, the text and a
  newline; for two, a blank line stands before the separator and a newline ends the string.
\<close>

theorem format_context_for_llm_newline_after_text:
  "format_context_for_llm [first_snippet]
     = ''[Source 1: T (Article)]'' @ [CHR 0x0A] @ ''foo'' @ [CHR 0x0A]
   \<and> format_context_for_llm [first_snippet]
     \<noteq> ''[Source 1: T (Article)]'' @ [CHR 0x0A] @ ''foo''
   \<and> format_context_for_llm [first_snippet, second_snippet]
     \<noteq> ''[Source 1: T (Article)]'' @ [CHR 0x0A] @ ''foo''
       @ [CHR 0x0A] @ ''---'' @ [CHR 0x0A]
       @ ''[Source 2: U (Video)]'' @ [CHR 0x0A] @ ''bar''"
  by (simp add: format_context_for_llm_def separator_def source_block_def NL_def
      first_snippet_def second_snippet_def digit_char_values)

text \<open>
  C10: for the empty list of snippets the context is the empty string: no header and no
  separator.
\<close>

theorem format_context_for_llm_empty:
  "format_context_for_llm [] = []"
  by (simp add: format_context_for_llm_def)

section \<open>Properties of \<^verbatim>\<open>extract_snippets\<close>\<close>

lemmas example_defs = example_world_def example_config_def example_token_def
  example_completion_def empty_token_info_def example_result_def three_results_def
  example_body_def token_answers_def

lemma extract_loop_eq: "extract_loop mc rs acc = acc @ map (make_snippet mc) rs"
  by (induction rs arbitrary: acc) auto

lemma extract_snippets_eq:
  "extract_snippets results ms mc = map (make_snippet mc) (py_slice_to ms (get_data results))"
  by (auto simp: extract_snippets_def extract_loop_eq has_data_def get_data_def py_slice_to_def
      split: option.splits)

text \<open>
  C4, as the code has it: for bounds that are not negative, the snippets are made from the
  first \<open>min (len results) max_snippets\<close> results in their order, the text of each is the
  first \<open>max_chars_per_snippet\<close> characters of the result's snippet (the empty string when
  the result has none), and so both bounds hold.
\<close>

theorem extract_snippets_bounded:
  assumes "0 \<le> max_snippets" and "0 \<le> max_chars"
  shows "extract_snippets results max_snippets max_chars
           = map (make_snippet max_chars) (take (nat max_snippets) (get_data results))
       \<and> length (extract_snippets results max_snippets max_chars)
           = min (length (get_data results)) (nat max_snippets)
       \<and> int (length (extract_snippets results max_snippets max_chars)) \<le> max_snippets
       \<and> (\<forall>r. snippet_text (make_snippet max_chars r)
               = take (nat max_chars)
                   (case snippet (get_properties r) of None \<Rightarrow> [] | Some t \<Rightarrow> t))
       \<and> (\<forall>s \<in> set (extract_snippets results max_snippets max_chars).
             int (length (snippet_text s)) \<le> max_chars)"
  using assms
  by (auto simp: extract_snippets_eq py_slice_to_def make_snippet_def Let_def)

theorem extract_snippets_bounded_witness:
  "map snippet_title (extract_snippets \<lparr>data = Some eight_results\<rparr> 5 350)
     = [''R1'', ''R2'', ''R3'', ''R4'', ''R5'']
   \<and> map (\<lambda>s. length (snippet_text s)) (extract_snippets \<lparr>data = Some eight_results\<rparr> 5 350)
     = [350, 350, 350, 350, 350]
   \<and> map snippet_text (extract_snippets \<lparr>data = Some eight_results\<rparr> 5 350)
     = replicate 5 (take 350 long_snippet)
   \<and> snippet_text (make_snippet 350 \<lparr>properties = None, metadata = None\<rparr>) = []"
proof -
  have "(0::int) \<le> 5" and "(0::int) \<le> 350" by simp_all
  from extract_snippets_bounded[OF this, of "\<lparr>data = Some eight_results\<rparr>"]
  show ?thesis
    by (simp add: eight_results_def example_result_def get_data_def make_snippet_def
        get_properties_def no_properties_def long_snippet_def Let_def py_slice_to_def
        numeral_eq_Suc)
qed

text \<open>
  C4 as stated fails for a negative bound, which the slices read from the end: with
  \<open>max_snippets = -1\<close> three results give two snippets, and with
  \<open>max_chars_per_snippet = -1\<close> a text of three characters keeps two.
\<close>

theorem extract_snippets_negative_bound:
  "length (extract_snippets \<lparr>data = Some three_results\<rparr> (- 1) 350) = 2
   \<and> \<not> int (length (extract_snippets \<lparr>data = Some three_results\<rparr> (- 1) 350)) \<le> - 1
   \<and> map snippet_text (extract_snippets \<lparr>data = Some three_results\<rparr> 3 (- 1))
       = [''ab'', ''de'', ''gh'']"
  by (simp add: extract_snippets_eq three_results_def example_result_def get_data_def
      make_snippet_def get_properties_def py_slice_to_def Let_def)

section \<open>Properties of the token manager\<close>

lemmas auth_defs = ensure_valid_token_def is_token_expired_def get_access_token_def
  post_token_def time_time_def cached_access_token_def dict_empty_def

text \<open>What \<^verbatim>\<open>ensure_valid_token\<close> leaves alone, and that it sends at most one request.\<close>

lemma ensure_valid_token_frame:
  "ensure_valid_token cfg w = (r, w') \<Longrightarrow>
     search_log w' = search_log w \<and> search_endpoint w' = search_endpoint w
   \<and> completions_log w' = completions_log w \<and> completions_endpoint w' = completions_endpoint w
   \<and> stdout w' = stdout w \<and> stderr w' = stderr w
   \<and> token_endpoint w' = token_endpoint w \<and> clock w' = clock w"
  by (auto simp: auth_defs Let_def
      split: if_splits option.splits http_result.splits sum.splits prod.splits)

lemma ensure_valid_token_token_log:
  "ensure_valid_token cfg w = (r, w') \<Longrightarrow> length (token_log w') \<le> Suc (length (token_log w))"
  by (auto simp: auth_defs Let_def
      split: if_splits option.splits http_result.splits sum.splits prod.splits)

text \<open>
  C1, as the code has it. \<open>clock w (clock_reads w)\<close> is the time that the call reads first.
  \<^enum> With a cached token whose expiry \<open>T\<close> is at least 60 seconds away, the cached token is
    returned; nothing changes but the clock having been read: no request, the same cache.
  \<^enum> With no cached expiry, or less than 60 seconds before it, exactly one grant request
    is sent, whatever the endpoint answers.
  \<^enum> When that request succeeds, the body is cached with
    \<open>expires_at = int(now') + expires_in\<close>, where \<open>now'\<close> is the clock read after the
    answer, cut to whole seconds, and the new token is returned.
  \<^enum> A token returned without a request was cached and at least 60 seconds from its expiry.
\<close>

theorem ensure_valid_token_reuses_or_refreshes:
  "(expires_at (access_token_info w) = Some T \<and> access_token (access_token_info w) = Some tok
      \<and> clock w (clock_reads w) \<le> real_of_int T - 60 \<longrightarrow>
        ensure_valid_token cfg w = (Inr tok, w\<lparr>clock_reads := Suc (clock_reads w)\<rparr>))
   \<and> (expires_at (access_token_info w) = None
        \<or> (\<exists>T'. expires_at (access_token_info w) = Some T'
                 \<and> clock w (clock_reads w) > real_of_int T' - 60) \<longrightarrow>
        token_log (snd (ensure_valid_token cfg w)) = token_log w @ [client_credentials_grant cfg])
   \<and> ((expires_at (access_token_info w) = None
        \<or> (\<exists>T'. expires_at (access_token_info w) = Some T'
                 \<and> clock w (clock_reads w) > real_of_int T' - 60))
      \<and> token_endpoint w (length (token_log w)) = Response status body_text (Some body)
      \<and> \<not> is_error_status status
      \<and> expires_in body = Some ei \<and> access_token body = Some new_tok \<longrightarrow>
        fst (ensure_valid_token cfg w) = Inr new_tok
      \<and> access_token_info (snd (ensure_valid_token cfg w))
          = body\<lparr>expires_at :=
                   Some (py_trunc (clock w (clock_reads (snd (is_token_expired w)))) + ei)\<rparr>)
   \<and> (fst (ensure_valid_token cfg w) = Inr tok'
        \<and> token_log (snd (ensure_valid_token cfg w)) = token_log w \<longrightarrow>
        (\<exists>T'. expires_at (access_token_info w) = Some T'
           \<and> access_token (access_token_info w) = Some tok'
           \<and> clock w (clock_reads w) \<le> real_of_int T' - 60))"
  apply (intro conjI impI)
  subgoal by (auto simp: auth_defs Let_def)
  subgoal by (auto simp: auth_defs Let_def
        split: if_splits option.splits http_result.splits sum.splits prod.splits)
  subgoal by (auto simp: auth_defs Let_def split: if_splits option.splits)
  subgoal by (auto simp: auth_defs Let_def split: if_splits option.splits)
  subgoal by (auto simp: auth_defs Let_def
        split: if_splits option.splits http_result.splits sum.splits prod.splits)
  done

text \<open>
  The witness: in the example world the first call fetches a token at time 1000 that
  expires at 4600; a second call, at time 4540, reuses it, and a third, at 4541, sends
  the second request.
\<close>

theorem ensure_valid_token_reuses_or_refreshes_witness:
  "fst (ensure_valid_token example_config example_world) = Inr ''tok''
   \<and> access_token_info (snd (ensure_valid_token example_config example_world))
       = \<lparr>access_token = Some ''tok'', expires_in = Some 3600, expires_at = Some 4600\<rparr>
   \<and> token_log (snd (ensure_valid_token example_config example_world))
       = [client_credentials_grant example_config]
   \<and> ensure_valid_token example_config
        (example_world\<lparr>access_token_info :=
             \<lparr>access_token = Some ''old'', expires_in = Some 3600, expires_at = Some 4600\<rparr>,
           clock := (\<lambda>n. 4540)\<rparr>)
       = (Inr ''old'',
          example_world\<lparr>access_token_info :=
             \<lparr>access_token = Some ''old'', expires_in = Some 3600, expires_at = Some 4600\<rparr>,
           clock := (\<lambda>n. 4540), clock_reads := Suc 0\<rparr>)
   \<and> token_log (snd (ensure_valid_token example_config
        (example_world\<lparr>access_token_info :=
             \<lparr>access_token = Some ''old'', expires_in = Some 3600, expires_at = Some 4600\<rparr>,
           clock := (\<lambda>n. 4541)\<rparr>)))
       = [client_credentials_grant example_config]"
proof -
  let ?old = "\<lparr>access_token = Some ''old'', expires_in = Some 3600, expires_at = Some 4600\<rparr>"
  let ?w1 = "example_world\<lparr>access_token_info := ?old, clock := (\<lambda>n. 4540)\<rparr>"
  let ?w2 = "example_world\<lparr>access_token_info := ?old, clock := (\<lambda>n. 4541)\<rparr>"
  note a = ensure_valid_token_reuses_or_refreshes
    [of example_world _ _ example_config 200 "[]" "example_token ''tok'' 3600" 3600 "''tok''"]
  note b = ensure_valid_token_reuses_or_refreshes[of ?w1 4600 "''old''" example_config]
  note c = ensure_valid_token_reuses_or_refreshes[of ?w2 4600 "''old''" example_config]
  have 1: "fst (ensure_valid_token example_config example_world) = Inr ''tok''
    \<and> access_token_info (snd (ensure_valid_token example_config example_world))
       = \<lparr>access_token = Some ''tok'', expires_in = Some 3600, expires_at = Some 4600\<rparr>
    \<and> token_log (snd (ensure_valid_token example_config example_world))
       = [client_credentials_grant example_config]"
    using a by (simp add: example_defs is_error_status_def is_token_expired_def dict_empty_def
        py_trunc_def)
  have 2: "ensure_valid_token example_config ?w1
       = (Inr ''old'', ?w1\<lparr>clock_reads := Suc 0\<rparr>)"
    using b by (simp add: example_defs)
  have 3: "token_log (snd (ensure_valid_token example_config ?w2))
       = [client_credentials_grant example_config]"
    using c by (simp add: example_defs)
  from 1 2 3 show ?thesis by simp
qed

text \<open>
  C1 as stated fails in its last part. The endpoint answers with a token that lives 30
  seconds; the call at time 1000.5 returns it although that is later than its expiry
  1030 less 60 seconds. The cached expiry is \<open>int(1000.5) + 30 = 1030\<close>, not
  \<open>now + expires_in\<close>.
\<close>

theorem ensure_valid_token_short_lived:
  "fst (ensure_valid_token example_config
          (token_answers (example_token ''tok'' 30) (example_world\<lparr>clock := (\<lambda>n. 2001 / 2)\<rparr>)))
     = Inr ''tok''
   \<and> expires_at (access_token_info (snd (ensure_valid_token example_config
          (token_answers (example_token ''tok'' 30) (example_world\<lparr>clock := (\<lambda>n. 2001 / 2)\<rparr>)))))
     = Some 1030
   \<and> (2001 / 2 :: real) > real_of_int 1030 - 60
   \<and> real_of_int 1030 \<noteq> 2001 / 2 + 30"
  by (simp add: auth_defs example_defs is_error_status_def Let_def py_trunc_def)

text \<open>
  C7, as the code has it. When a token has to be fetched, the outcome follows the
  endpoint's answer: a failed request, a status from 400 to 599 and a body that is no JSON
  give the generic exception \<^verbatim>\<open>Exception("Failed to obtain access token: ...")\<close>; a
  decoded body without \<^verbatim>\<open>expires_in\<close> or without \<^verbatim>\<open>access_token\<close> gives the
  \<^verbatim>\<open>KeyError\<close> of the member that is read; a body with both gives the token. When no
  token has to be fetched, the cached one is read.
\<close>

theorem ensure_valid_token_outcomes:
  "(fst (is_token_expired w) \<and> token_endpoint w (length (token_log w)) = RequestFailed m \<longrightarrow>
      fst (ensure_valid_token cfg w)
        = Inl (Wrapped ''Failed to obtain access token'' (ConnectionFailed m)))
   \<and> (fst (is_token_expired w)
        \<and> token_endpoint w (length (token_log w)) = Response status body_text body \<longrightarrow>
      fst (ensure_valid_token cfg w)
        = (if is_error_status status
           then Inl (Wrapped ''Failed to obtain access token'' (HTTPError status))
           else case body of
             None \<Rightarrow> Inl (Wrapped ''Failed to obtain access token'' JSONDecodeError)
           | Some token_data \<Rightarrow>
               (case expires_in token_data of
                  None \<Rightarrow> Inl (KeyError ''expires_in'')
                | Some ei \<Rightarrow>
                    (case access_token token_data of
                       None \<Rightarrow> Inl (KeyError ''access_token'')
                     | Some tok \<Rightarrow> Inr tok))))
   \<and> (\<not> fst (is_token_expired w) \<longrightarrow>
        fst (ensure_valid_token cfg w) = cached_access_token w)"
  by (auto simp: auth_defs Let_def
      split: if_splits option.splits http_result.splits sum.splits prod.splits)

theorem ensure_valid_token_outcomes_witness:
  "fst (ensure_valid_token example_config
          (example_world\<lparr>token_endpoint := (\<lambda>n. RequestFailed ''timed out'')\<rparr>))
     = Inl (Wrapped ''Failed to obtain access token'' (ConnectionFailed ''timed out''))
   \<and> fst (ensure_valid_token example_config
          (example_world\<lparr>token_endpoint := (\<lambda>n. Response 401 ''denied'' None)\<rparr>))
     = Inl (Wrapped ''Failed to obtain access token'' (HTTPError 401))
   \<and> fst (ensure_valid_token example_config example_world) = Inr ''tok''
   \<and> fst (ensure_valid_token example_config
          (example_world\<lparr>access_token_info :=
             \<lparr>access_token = Some ''old'', expires_in = Some 3600, expires_at = Some 4600\<rparr>\<rparr>))
     = Inr ''old''"
proof -
  let ?a = "example_world\<lparr>token_endpoint := (\<lambda>n. RequestFailed ''timed out'')\<rparr>"
  let ?b = "example_world\<lparr>token_endpoint := (\<lambda>n. Response 401 ''denied'' None)\<rparr>"
  let ?d = "example_world\<lparr>access_token_info :=
             \<lparr>access_token = Some ''old'', expires_in = Some 3600, expires_at = Some 4600\<rparr>\<rparr>"
  have ea: "fst (is_token_expired ?a)" and eb: "fst (is_token_expired ?b)"
    and ec: "fst (is_token_expired example_world)" and ed: "\<not> fst (is_token_expired ?d)"
    by (simp_all add: is_token_expired_def dict_empty_def time_time_def example_defs)
  show ?thesis
    using ea eb ec ed
      ensure_valid_token_outcomes[of ?a "''timed out''" example_config]
      ensure_valid_token_outcomes[of ?b _ example_config 401 "''denied''" None]
      ensure_valid_token_outcomes[of example_world _ example_config 200 "[]"
        "Some (example_token ''tok'' 3600)"]
      ensure_valid_token_outcomes[of ?d _ example_config]
    by (simp add: example_defs is_error_status_def cached_access_token_def)
qed

text \<open>
  C7 as stated fails: a body with status 200 that lacks \<^verbatim>\<open>access_token\<close>, or
  \<^verbatim>\<open>expires_in\<close>, surfaces as the \<^verbatim>\<open>KeyError\<close> of the member, not as the
  exception that \<^verbatim>\<open>get_access_token\<close> raises for a failed request.
\<close>

theorem ensure_valid_token_key_error:
  "fst (ensure_valid_token example_config
          (token_answers \<lparr>access_token = None, expires_in = Some 3600, expires_at = None\<rparr>
             example_world))
     = Inl (KeyError ''access_token'')
   \<and> fst (ensure_valid_token example_config
          (token_answers \<lparr>access_token = Some ''tok'', expires_in = None, expires_at = None\<rparr>
             example_world))
     = Inl (KeyError ''expires_in'')"
  by (simp add: auth_defs example_defs is_error_status_def Let_def py_trunc_def)

section \<open>Properties of \<^verbatim>\<open>generate_with_context\<close>\<close>

text \<open>
  C9: a call of \<^verbatim>\<open>generate_with_context\<close> that gets a token sends one request, whose
  messages are exactly two. The first is the system message, with the caller's prompt or,
  when that is \<^verbatim>\<open>None\<close> or empty, the default prompt: "You are a helpful assistant.
  Answer the user's question based on the provided context. If the context doesn't contain
  relevant information, say so honestly." The second is the user message
  \<^verbatim>\<open>"Context:\n<context>\n\nQuestion: <query>"\<close>. A call that gets no token sends no
  request.
\<close>

theorem generate_with_context_messages:
  "(fst (ensure_valid_token cfg w) = Inr token \<longrightarrow>
      completions_log (snd (generate_with_context cfg query context system_prompt w))
        = completions_log w @
            [\<lparr>completions_bearer = token,
              messages =
                [\<lparr>role = ''system'',
                  content =
                    (case system_prompt of
                       None \<Rightarrow>
                         ''You are a helpful assistant. Answer the user'' @ [CHR 0x27]
                         @ ''s question based on the provided context. If the context doesn''
                         @ [CHR 0x27] @ ''t contain relevant information, say so honestly.''
                     | Some p \<Rightarrow>
                         if p = [] then
                           ''You are a helpful assistant. Answer the user'' @ [CHR 0x27]
                           @ ''s question based on the provided context. If the context doesn''
                           @ [CHR 0x27] @ ''t contain relevant information, say so honestly.''
                         else p)\<rparr>,
                 \<lparr>role = ''user'',
                  content = ''Context:'' @ [CHR 0x0A] @ context @ [CHR 0x0A, CHR 0x0A]
                            @ ''Question: '' @ query\<rparr>],
              auto_routing = True, max_tokens = RAG_MAX_TOKENS cfg\<rparr>])
   \<and> (fst (ensure_valid_token cfg w) = Inl e \<longrightarrow>
      completions_log (snd (generate_with_context cfg query context system_prompt w))
        = completions_log w)"
proof -
  obtain t w1 where a: "ensure_valid_token cfg w = (t, w1)"
    by (cases "ensure_valid_token cfg w")
  from ensure_valid_token_frame[OF a] have l: "completions_log w1 = completions_log w" by simp
  show ?thesis
  proof (cases t)
    case (Inl err)
    with a l show ?thesis by (simp add: generate_with_context_def)
  next
    case (Inr tok)
    with a l show ?thesis
      by (simp add: generate_with_context_def post_completions_def py_print_def
          build_messages_def effective_system_prompt_def default_system_prompt_def NL_def
          Let_def split: http_result.splits option.splits)
  qed
qed

theorem generate_with_context_messages_witness:
  "map messages (completions_log (snd (generate_with_context example_config ''What is X?''
       ''ctx'' None example_world)))
     = [[\<lparr>role = ''system'',
          content = ''You are a helpful assistant. Answer the user'' @ [CHR 0x27]
            @ ''s question based on the provided context. If the context doesn''
            @ [CHR 0x27] @ ''t contain relevant information, say so honestly.''\<rparr>,
         \<lparr>role = ''user'',
          content = ''Context:'' @ [CHR 0x0A] @ ''ctx'' @ [CHR 0x0A, CHR 0x0A]
            @ ''Question: What is X?''\<rparr>]]
   \<and> map messages (completions_log (snd (generate_with_context example_config ''What is X?''
       ''ctx'' (Some ''Be brief.'') example_world)))
     = [[\<lparr>role = ''system'', content = ''Be brief.''\<rparr>,
         \<lparr>role = ''user'',
          content = ''Context:'' @ [CHR 0x0A] @ ''ctx'' @ [CHR 0x0A, CHR 0x0A]
            @ ''Question: What is X?''\<rparr>]]
   \<and> completions_log (snd (generate_with_context example_config ''What is X?'' ''ctx'' None
       (example_world\<lparr>token_endpoint := (\<lambda>n. Response 401 ''denied'' None)\<rparr>))) = []"
proof -
  let ?b = "example_world\<lparr>token_endpoint := (\<lambda>n. Response 401 ''denied'' None)\<rparr>"
  have t: "fst (ensure_valid_token example_config example_world) = Inr ''tok''"
    by (simp add: auth_defs example_defs is_error_status_def Let_def)
  have f: "fst (ensure_valid_token example_config ?b)
             = Inl (Wrapped ''Failed to obtain access token'' (HTTPError 401))"
    by (simp add: auth_defs example_defs is_error_status_def Let_def)
  show ?thesis
    using t f
      generate_with_context_messages[of example_config example_world "''tok''" "''What is X?''"
        "''ctx''" None]
      generate_with_context_messages[of example_config example_world "''tok''" "''What is X?''"
        "''ctx''" "Some ''Be brief.''"]
      generate_with_context_messages[of example_config ?b _ "''What is X?''" "''ctx''" None]
    by (simp add: example_defs)
qed

section \<open>Properties of \<^verbatim>\<open>sorted\<close> and \<^verbatim>\<open>search\<close>\<close>

lemmas fixture_defs = search_answers_def search_down_def completions_down_def

lemma mset_insert_desc: "mset (insert_desc key x xs) = add_mset x (mset xs)"
  by (induction xs) auto

lemma mset_sorted_reverse: "mset (sorted_reverse key xs) = mset xs"
  by (induction xs) (auto simp: mset_insert_desc)

lemma set_insert_desc: "set (insert_desc key x xs) = insert x (set xs)"
  by (induction xs) auto

lemma descending_insert_desc:
  "sorted_wrt (\<lambda>a b. key b \<le> key a) xs \<Longrightarrow>
   sorted_wrt (\<lambda>a b. key b \<le> key a) (insert_desc key x xs)"
  by (induction xs) (auto simp: set_insert_desc)

lemma descending_sorted_reverse: "sorted_wrt (\<lambda>a b. key b \<le> key a) (sorted_reverse key xs)"
  by (induction xs) (auto simp: descending_insert_desc)

text \<open>Stability: the elements of one key keep their order.\<close>

lemma filter_insert_desc:
  "sorted_wrt (\<lambda>a b. key b \<le> key a) xs \<Longrightarrow>
   filter (\<lambda>y. key y = c) (insert_desc key x xs)
     = (if key x = c then x # filter (\<lambda>y. key y = c) xs else filter (\<lambda>y. key y = c) xs)"
proof (induction xs)
  case Nil
  then show ?case by simp
next
  case (Cons y ys)
  then show ?case by (auto simp: filter_empty_conv)
qed

lemma stable_sorted_reverse:
  "filter (\<lambda>y. key y = c) (sorted_reverse key xs) = filter (\<lambda>y. key y = c) xs"
  by (induction xs) (auto simp: filter_insert_desc descending_sorted_reverse)

lemma search_no_token:
  "ensure_valid_token cfg w = (Inl e, w1) \<Longrightarrow> search cfg q l s w = (Inl e, w1)"
  by (simp add: search_def)

lemma search_with_token:
  assumes "ensure_valid_token cfg w = (Inr token, w1)"
  shows "search cfg q l s w =
     (let w2 = w1\<lparr>search_log := search_log w1 @
                 [\<lparr>search_bearer = token, search_query = q,
                   search_collection = ''GlooProd'', search_tenant = TENANT cfg,
                   search_limit = l, search_certainty = 0.5\<rparr>]\<rparr>
      in case search_endpoint w (length (search_log w)) of
           RequestFailed m \<Rightarrow> (Inl (Wrapped ''Search request failed'' (ConnectionFailed m)), w2)
         | Response status body_text body \<Rightarrow>
             if is_error_status status then
               (Inl (Wrapped ''Search request failed'' (HTTPError status)),
                py_print (Line (''Search failed with status '' @ str_nat status @ '': ''
                                @ body_text)) w2)
             else
               (case body of
                  None \<Rightarrow> (Inl (Wrapped ''Search request failed'' JSONDecodeError), w2)
                | Some results \<Rightarrow>
                    (Inr (if s = ''certainty'' \<and> has_data results
                          then results\<lparr>data :=
                                 Some (sorted_reverse get_certainty (get_data results))\<rparr>
                          else results), w2)))"
proof -
  from ensure_valid_token_frame[OF assms]
  have "search_log w1 = search_log w" and "search_endpoint w1 = search_endpoint w" by simp_all
  with assms show ?thesis
    by (simp add: search_def post_search_def Let_def split: http_result.splits option.splits)
qed

lemma search_body_case:
  assumes "search cfg q l s w = (Inr results, w')"
  shows "case search_endpoint w (length (search_log w)) of
           RequestFailed m \<Rightarrow> False
         | Response status body_text None \<Rightarrow> False
         | Response status body_text (Some body) \<Rightarrow>
             \<not> is_error_status status
           \<and> results = (if s = ''certainty'' \<and> has_data body
                         then body\<lparr>data := Some (sorted_reverse get_certainty (get_data body))\<rparr>
                         else body)"
proof -
  obtain t w1 where e: "ensure_valid_token cfg w = (t, w1)"
    by (cases "ensure_valid_token cfg w")
  show ?thesis
  proof (cases t)
    case (Inl err)
    with e have "search cfg q l s w = (Inl err, w1)" by (simp add: search_no_token)
    with assms show ?thesis by simp
  next
    case (Inr tok)
    with e have u: "ensure_valid_token cfg w = (Inr tok, w1)" by simp
    from assms have "fst (search cfg q l s w) = Inr results" by simp
    then show ?thesis
      unfolding search_with_token[OF u] Let_def
      by (auto split: http_result.splits option.splits if_splits)
  qed
qed

lemma search_body:
  assumes "search cfg q l s w = (Inr results, w')"
  shows "\<exists>status body_text body.
           search_endpoint w (length (search_log w)) = Response status body_text (Some body)
         \<and> \<not> is_error_status status
         \<and> results = (if s = ''certainty'' \<and> has_data body
                       then body\<lparr>data := Some (sorted_reverse get_certainty (get_data body))\<rparr>
                       else body)"
proof (cases "search_endpoint w (length (search_log w))")
  case (RequestFailed m)
  with search_body_case[OF assms] show ?thesis by simp
next
  case (Response status body_text body)
  show ?thesis
  proof (cases body)
    case None
    with Response search_body_case[OF assms] show ?thesis by simp
  next
    case (Some b)
    with Response search_body_case[OF assms]
    have "\<not> is_error_status status
         \<and> results = (if s = ''certainty'' \<and> has_data b
                       then b\<lparr>data := Some (sorted_reverse get_certainty (get_data b))\<rparr>
                       else b)"
      by simp
    with Response Some show ?thesis by blast
  qed
qed

text \<open>
  C6: a search that returns gives back the body the server sent. Without the certainty
  sort the body is unchanged. With it, the results are the same results, in descending
  order of certainty, and those of equal certainty stand in the order the server gave
  them.
\<close>

theorem search_order:
  assumes "search cfg query limit sort_by w = (Inr results, w')"
  shows "\<exists>status body_text body.
      search_endpoint w (length (search_log w)) = Response status body_text (Some body)
    \<and> (sort_by \<noteq> ''certainty'' \<longrightarrow> results = body)
    \<and> (sort_by = ''certainty'' \<longrightarrow>
         mset (get_data results) = mset (get_data body)
       \<and> sorted_wrt (\<lambda>a b. get_certainty b \<le> get_certainty a) (get_data results)
       \<and> (\<forall>c. filter (\<lambda>x. get_certainty x = c) (get_data results)
               = filter (\<lambda>x. get_certainty x = c) (get_data body)))"
proof -
  from search_body[OF assms] obtain status body_text body where
    r: "search_endpoint w (length (search_log w)) = Response status body_text (Some body)"
    and b: "results = (if sort_by = ''certainty'' \<and> has_data body
                       then body\<lparr>data := Some (sorted_reverse get_certainty (get_data body))\<rparr>
                       else body)"
    by blast
  have "sort_by \<noteq> ''certainty'' \<longrightarrow> results = body" using b by simp
  moreover have "sort_by = ''certainty'' \<longrightarrow>
         mset (get_data results) = mset (get_data body)
       \<and> sorted_wrt (\<lambda>a b. get_certainty b \<le> get_certainty a) (get_data results)
       \<and> (\<forall>c. filter (\<lambda>x. get_certainty x = c) (get_data results)
               = filter (\<lambda>x. get_certainty x = c) (get_data body))"
  proof (cases "has_data body")
    case True
    with b show ?thesis
      by (simp add: get_data_def mset_sorted_reverse descending_sorted_reverse
          stable_sorted_reverse)
  next
    case False
    then have "get_data body = []"
      by (simp add: has_data_def get_data_def split: option.splits)
    with False b show ?thesis by simp
  qed
  ultimately show ?thesis using r by blast
qed

theorem search_order_witness:
  "map get_certainty (get_data (projr (fst
      (search example_config ''q'' 10 ''certainty'' (search_answers three_results example_world)))))
     = [0.9, 0.7, 0.5]
   \<and> map get_certainty (get_data (projr (fst
      (search example_config ''q'' 10 ''relevance'' (search_answers three_results example_world)))))
     = [0.5, 0.9, 0.7]
   \<and> sorted_wrt (\<lambda>a b. get_certainty b \<le> get_certainty a) (get_data (projr (fst
      (search example_config ''q'' 10 ''certainty'' (search_answers three_results example_world)))))"
proof -
  let ?w = "search_answers three_results example_world"
  let ?sorted = "\<lparr>data = Some [example_result ''B'' 0.9 ''def'', example_result ''C'' 0.7 ''ghi'',
                                example_result ''A'' 0.5 ''abc'']\<rparr>"
  have t: "ensure_valid_token example_config ?w
             = (Inr ''tok'', snd (ensure_valid_token example_config ?w))"
    by (simp add: prod_eq_iff auth_defs example_defs fixture_defs is_error_status_def Let_def)
  have c: "search example_config ''q'' 10 ''certainty'' ?w
             = (Inr ?sorted, snd (search example_config ''q'' 10 ''certainty'' ?w))"
    by (simp add: prod_eq_iff search_with_token[OF t] Let_def)
       (simp add: example_defs fixture_defs is_error_status_def has_data_def get_data_def
          get_certainty_def)
  have d: "search example_config ''q'' 10 ''relevance'' ?w
             = (Inr \<lparr>data = Some three_results\<rparr>,
                snd (search example_config ''q'' 10 ''relevance'' ?w))"
    by (simp add: prod_eq_iff search_with_token[OF t] Let_def)
       (simp add: example_defs fixture_defs is_error_status_def)
  from search_order[OF c]
  have s: "sorted_wrt (\<lambda>a b. get_certainty b \<le> get_certainty a) (get_data ?sorted)"
    by auto
  have fc: "fst (search example_config ''q'' 10 ''certainty'' ?w) = Inr ?sorted"
    by (subst c) (rule fst_conv)
  have fd: "fst (search example_config ''q'' 10 ''relevance'' ?w)
                     = Inr \<lparr>data = Some three_results\<rparr>"
    by (subst d) (rule fst_conv)
  have v: "map get_certainty (get_data ?sorted) = [0.9, 0.7, 0.5]"
    "map get_certainty (get_data \<lparr>data = Some three_results\<rparr>) = [0.5, 0.9, 0.7]"
    by (simp_all add: get_data_def get_certainty_def three_results_def example_result_def)
  show ?thesis
    unfolding fc fd sum.sel using s v by (intro conjI) assumption+
qed

section \<open>Properties of the pipeline runs\<close>



text \<open>What a search and a generation leave alone, and how many requests they send.\<close>

lemma search_frame:
  "completions_log (snd (search cfg q l s w)) = completions_log w
   \<and> completions_endpoint (snd (search cfg q l s w)) = completions_endpoint w
   \<and> stderr (snd (search cfg q l s w)) = stderr w
   \<and> length (search_log (snd (search cfg q l s w))) \<le> Suc (length (search_log w))
   \<and> length (token_log (snd (search cfg q l s w))) \<le> Suc (length (token_log w))"
proof -
  obtain t w1 where e: "ensure_valid_token cfg w = (t, w1)"
    by (cases "ensure_valid_token cfg w")
  note f = ensure_valid_token_frame[OF e] ensure_valid_token_token_log[OF e]
  show ?thesis
  proof (cases t)
    case (Inl err)
    with e have "search cfg q l s w = (Inl err, w1)" by (simp add: search_no_token)
    with f show ?thesis by simp
  next
    case (Inr tok)
    with e have u: "ensure_valid_token cfg w = (Inr tok, w1)" by simp
    show ?thesis
      unfolding search_with_token[OF u] Let_def using f
      by (simp add: py_print_def split: http_result.splits option.splits)
  qed
qed



lemma api_rag_valid:
  assumes "body_query b = Some query" and "query \<noteq> []"
    and "normalize_limit_default (case body_limit b of None \<Rightarrow> PInt 5 | Some v \<Rightarrow> v) 5
           = Inr limit"
  shows "api_rag cfg (Some b) w =
           (case rag_steps cfg query limit (body_systemPrompt b) w of
              (Inr reply, w1) \<Rightarrow> (reply, w1)
            | (Inl e, w1) \<Rightarrow>
                (JsonError 500 ''RAG request failed'',
                 print_stderr (ErrorLine ''RAG error'' e) w1))"
  using assms by (simp add: api_rag_def)


lemma rag_search_start_frame:
  "search_log (rag_search_start q w) = search_log w
   \<and> completions_log (rag_search_start q w) = completions_log w
   \<and> token_log (rag_search_start q w) = token_log w"
  by (simp add: rag_search_start_def py_print_def Let_def)


lemma rag_search_no_results:
  "search cfg query limit ''relevance'' (rag_search_start query w) = (Inr results, w1) \<Longrightarrow>
   \<not> has_data results \<Longrightarrow>
   rag_search cfg query limit w = (Returned, py_print (Line ''No results found.'') w1)"
  by (simp add: rag_search_def Let_def)


lemmas run_defs = api_rag_def rag_steps_def rag_search_def rag_search_start_def
  rag_search_failed_def search_def post_search_def generate_with_context_def
  post_completions_def first_choice_content_def py_print_def print_stderr_def
  normalize_limit_default_def normalize_limit_def has_data_def is_error_status_def

text \<open>
  C3, as the code has it. When the search of the route \<^verbatim>\<open>api_rag\<close> returns no result,
  the route answers with \<^verbatim>\<open>"No relevant content found."\<close> and no sources, in the world
  the search left, to which no completions request was added. When the search of the
  command-line run \<^verbatim>\<open>rag_search\<close> returns no result, the run prints
  \<^verbatim>\<open>"No results found."\<close> and returns; it has sent no completions request either.
\<close>

theorem zero_results_short_circuit:
  "(body_query b = Some query \<and> query \<noteq> []
      \<and> normalize_limit_default (case body_limit b of None \<Rightarrow> PInt 5 | Some v \<Rightarrow> v) 5
          = Inr limit
      \<and> search cfg query limit ''relevance'' w = (Inr results, w1) \<and> \<not> has_data results \<longrightarrow>
        api_rag cfg (Some b) w = (RagAnswer ''No relevant content found.'' [], w1)
      \<and> completions_log w1 = completions_log w)
   \<and> (search cfg query limit ''relevance'' (rag_search_start query w) = (Inr results', w2)
      \<and> \<not> has_data results' \<longrightarrow>
        rag_search cfg query limit w = (Returned, py_print (Line ''No results found.'') w2)
      \<and> completions_log (py_print (Line ''No results found.'') w2) = completions_log w)"
proof (intro conjI impI)
  assume a: "body_query b = Some query \<and> query \<noteq> []
      \<and> normalize_limit_default (case body_limit b of None \<Rightarrow> PInt 5 | Some v \<Rightarrow> v) 5
          = Inr limit
      \<and> search cfg query limit ''relevance'' w = (Inr results, w1) \<and> \<not> has_data results"
  then have "api_rag cfg (Some b) w
      = (case rag_steps cfg query limit (body_systemPrompt b) w of
           (Inr reply, w1) \<Rightarrow> (reply, w1)
         | (Inl e, w1) \<Rightarrow>
             (JsonError 500 ''RAG request failed'', print_stderr (ErrorLine ''RAG error'' e) w1))"
    by (simp add: api_rag_valid)
  with a show "api_rag cfg (Some b) w = (RagAnswer ''No relevant content found.'' [], w1)"
    by (simp add: rag_steps_def)
  from search_frame[of cfg query limit "''relevance''" w] a
  show "completions_log w1 = completions_log w" by simp
next
  assume a: "search cfg query limit ''relevance'' (rag_search_start query w) = (Inr results', w2)
      \<and> \<not> has_data results'"
  then show "rag_search cfg query limit w = (Returned, py_print (Line ''No results found.'') w2)"
    by (simp add: rag_search_no_results)
  from search_frame[of cfg query limit "''relevance''" "rag_search_start query w"] a
    rag_search_start_frame[of query w]
  show "completions_log (py_print (Line ''No results found.'') w2) = completions_log w"
    by (simp add: py_print_def)
qed

theorem zero_results_short_circuit_witness:
  "fst (api_rag example_config (Some example_body) example_world)
     = RagAnswer ''No relevant content found.'' []
   \<and> completions_log (snd (api_rag example_config (Some example_body) example_world)) = []
   \<and> fst (rag_search example_config ''What is X?'' 5 example_world) = Returned
   \<and> completions_log (snd (rag_search example_config ''What is X?'' 5 example_world)) = []"
proof -
  let ?q = "''What is X?''"
  let ?s = "search example_config ?q 5 ''relevance'' example_world"
  let ?t = "search example_config ?q 5 ''relevance'' (rag_search_start ?q example_world)"
  have b: "body_query example_body = Some ?q" "?q \<noteq> []"
    "normalize_limit_default (case body_limit example_body of None \<Rightarrow> PInt 5 | Some v \<Rightarrow> v) 5
       = Inr 5"
    by (simp_all add: example_body_def normalize_limit_default_def normalize_limit_def)
  have s: "?s = (Inr \<lparr>data = Some []\<rparr>, snd ?s)"
    by (simp add: prod_eq_iff)
       (simp add: search_def post_search_def auth_defs example_defs is_error_status_def Let_def)
  have t: "?t = (Inr \<lparr>data = Some []\<rparr>, snd ?t)"
    by (simp add: prod_eq_iff)
       (simp add: search_def post_search_def auth_defs example_defs is_error_status_def Let_def
          rag_search_start_def py_print_def)
  have n: "\<not> has_data \<lparr>data = Some []\<rparr>" by (simp add: has_data_def)
  have c: "completions_log example_world = []" by (simp add: example_world_def)
  from zero_results_short_circuit[of example_body ?q 5 example_config example_world
      "\<lparr>data = Some []\<rparr>" "snd ?s" "\<lparr>data = Some []\<rparr>" "snd ?t"] b s t n
  have "api_rag example_config (Some example_body) example_world
          = (RagAnswer ''No relevant content found.'' [], snd ?s)
      \<and> completions_log (snd ?s) = completions_log example_world
      \<and> rag_search example_config ?q 5 example_world
          = (Returned, py_print (Line ''No results found.'') (snd ?t))
      \<and> completions_log (py_print (Line ''No results found.'') (snd ?t))
          = completions_log example_world"
    by blast
  with c show ?thesis by simp
qed

text \<open>
  C3 as stated fails for the command-line run: with no result it prints
  \<^verbatim>\<open>"No results found."\<close>, and the answer \<^verbatim>\<open>"No relevant content found."\<close> is
  not among its lines.
\<close>

theorem rag_search_prints_no_results:
  "fst (rag_search example_config ''What is X?'' 5 example_world) = Returned
   \<and> stdout (snd (rag_search example_config ''What is X?'' 5 example_world))
       = [Line (''RAG Search for: '' @ [CHR 0x27] @ ''What is X?'' @ [CHR 0x27, NL]),
          Line ''Step 1: Searching for relevant content...'',
          Line ''No results found.'']
   \<and> Line ''No relevant content found.''
       \<notin> set (stdout (snd (rag_search example_config ''What is X?'' 5 example_world)))"
  by (simp add: run_defs auth_defs example_defs Let_def)




end
